theory Spec2Isabelle
  imports Main "HOL-Library.AList"
begin

section \<open>Values and dictionaries\<close>

text \<open>
  A value of the Python programs: what \<^verbatim>\<open>json.loads\<close> produces (None, booleans,
  numbers, strings, lists, dicts with string keys), plus the \<^verbatim>\<open>datetime\<close> objects
  that \<^verbatim>\<open>_normalize\<close> writes into a flat record. Numbers are integers here.

  A Python dict keeps its keys in insertion order and holds each key once. It is an
  association list; \<^verbatim>\<open>d[k] = v\<close> is \<open>AList.update\<close> (overwrite in place, or append
  at the end), \<^verbatim>\<open>k in d\<close> is membership in the key list, \<^verbatim>\<open>d[k]\<close> is \<open>map_of\<close>.
\<close>

record datetime =
  year :: nat
  month :: nat
  day :: nat
  hour :: nat
  minute :: nat
  second :: nat
  utcoffset :: "int option"

datatype json =
    JNull
  | JBool bool
  | JNum int
  | JStr string
  | JDateTime datetime
  | JList "json list"
  | JDict "(string \<times> json) list"

type_synonym dict = "(string \<times> json) list"

definition keys :: "dict \<Rightarrow> string list" where
  "keys d = map fst d"

definition has_key :: "string \<Rightarrow> dict \<Rightarrow> bool" where
  "has_key k d = (k \<in> set (keys d))"

text \<open>\<^verbatim>\<open>out.update(other)\<close>: the items of \<open>other\<close>, in order, written into \<open>out\<close>.\<close>

definition dict_update :: "dict \<Rightarrow> dict \<Rightarrow> dict" where
  "dict_update out other = fold (\<lambda>kv acc. AList.update (fst kv) (snd kv) acc) other out"

text \<open>\<^verbatim>\<open>dict(items)\<close>: a fresh dict filled from a list of pairs, later pairs winning.\<close>

definition dict_of_items :: "dict \<Rightarrow> dict" where
  "dict_of_items items = dict_update [] items"

section \<open>The flattener of the table loaders\<close>

text \<open>
  \<^verbatim>\<open>_flatten\<close> of InsertTransferData.py (and, line for line, \<^verbatim>\<open>_flatten_json\<close> of
  InsertCustomerData.py):
  \<^verbatim>\<open>
  out = {}
  for k, v in d.items():
      nk = f"{parent}{sep}{k}" if parent else k
      if isinstance(v, dict):   out.update(_flatten(v, nk, sep))
      elif isinstance(v, list): out[nk] = v
      else:                     out[nk] = v
  return out
  \<close>
  \<open>flatten_loop\<close> is the loop with its accumulator \<open>out\<close>.
\<close>

definition compose_key :: "string \<Rightarrow> string \<Rightarrow> string \<Rightarrow> string" where
  "compose_key parent sep k = (if parent \<noteq> [] then parent @ sep @ k else k)"

function (sequential) flatten_loop :: "dict \<Rightarrow> string \<Rightarrow> string \<Rightarrow> dict \<Rightarrow> dict" where
  "flatten_loop [] parent sep out = out"
| "flatten_loop ((k, JDict d) # rest) parent sep out =
     flatten_loop rest parent sep
       (dict_update out (flatten_loop d (compose_key parent sep k) sep []))"
| "flatten_loop ((k, JList xs) # rest) parent sep out =
     flatten_loop rest parent sep (AList.update (compose_key parent sep k) (JList xs) out)"
| "flatten_loop ((k, v) # rest) parent sep out =
     flatten_loop rest parent sep (AList.update (compose_key parent sep k) v out)"
  by pat_completeness auto
termination
  by (relation "measure (\<lambda>(d, parent, sep, out). size_list (size_prod (\<lambda>_. 0) size) d)") auto

definition flatten :: "dict \<Rightarrow> string \<Rightarrow> string \<Rightarrow> dict" where
  "flatten d parent sep = flatten_loop d parent sep []"

section \<open>The column mapping tables\<close>

text \<open>
  \<^verbatim>\<open>KEY_TO_COL\<close> of InsertTransferData.py, in the order of the dict literal (the order
  \<^verbatim>\<open>.items()\<close> iterates in), and \<^verbatim>\<open>column_mapping\<close> of \<^verbatim>\<open>insert_user\<close>.
\<close>

definition KEY_TO_COL :: "(string \<times> string) list" where
  "KEY_TO_COL = [
     (''id'', ''id''),
     (''client_reference_id'', ''client_reference_id''),
     (''state'', ''state''),
     (''on_behalf_of'', ''on_behalf_of''),
     (''amount'', ''amount''),
     (''developer_fee'', ''developer_fee''),
     (''currency'', ''currency''),
     (''created_at'', ''created_at''),
     (''updated_at'', ''updated_at''),
     (''source_payment_rail'', ''source_payment_rail''),
     (''source_currency'', ''source_currency''),
     (''source_from_address'', ''source_from_address''),
     (''source_external_account_id'', ''source_external_account_id''),
     (''source_bridge_wallet_id'', ''source_bridge_wallet_id''),
     (''source_bank_beneficiary_name'', ''source_bank_beneficiary_name''),
     (''source_bank_routing_number'', ''source_bank_routing_number''),
     (''source_bank_account_number'', ''source_bank_account_number''),
     (''source_bank_name'', ''source_bank_name''),
     (''source_imad'', ''source_imad''),
     (''source_omad'', ''source_omad''),
     (''source_payment_scheme'', ''source_payment_scheme''),
     (''destination_payment_rail'', ''destination_payment_rail''),
     (''destination_currency'', ''destination_currency''),
     (''destination_to_address'', ''destination_to_address''),
     (''destination_external_account_id'', ''destination_external_account_id''),
     (''destination_bridge_wallet_id'', ''destination_bridge_wallet_id''),
     (''destination_wire_message'', ''destination_wire_message''),
     (''destination_sepa_reference'', ''destination_sepa_reference''),
     (''destination_swift_reference'', ''destination_swift_reference''),
     (''destination_spei_reference'', ''destination_spei_reference''),
     (''destination_swift_charges'', ''destination_swift_charges''),
     (''destination_ach_reference'', ''destination_ach_reference''),
     (''destination_blockchain_memo'', ''destination_blockchain_memo''),
     (''destination_deposit_id'', ''destination_deposit_id''),
     (''destination_imad'', ''destination_imad''),
     (''source_deposit_instructions_payment_rail'', ''sdi_payment_rail''),
     (''source_deposit_instructions_payment_rails'', ''sdi_payment_rails''),
     (''source_deposit_instructions_amount'', ''sdi_amount''),
     (''source_deposit_instructions_currency'', ''sdi_currency''),
     (''source_deposit_instructions_deposit_message'', ''sdi_deposit_message''),
     (''source_deposit_instructions_from_address'', ''sdi_from_address''),
     (''source_deposit_instructions_to_address'', ''sdi_to_address''),
     (''source_deposit_instructions_bank_beneficiary_name'', ''sdi_bank_beneficiary_name''),
     (''source_deposit_instructions_bank_routing_number'', ''sdi_bank_routing_number''),
     (''source_deposit_instructions_bank_account_number'', ''sdi_bank_account_number''),
     (''source_deposit_instructions_bank_name'', ''sdi_bank_name''),
     (''source_deposit_instructions_iban'', ''sdi_iban''),
     (''source_deposit_instructions_bic'', ''sdi_bic''),
     (''source_deposit_instructions_account_holder_name'', ''sdi_account_holder_name''),
     (''source_deposit_instructions_bank_address'', ''sdi_bank_address''),
     (''receipt_initial_amount'', ''receipt_initial_amount''),
     (''receipt_developer_fee'', ''receipt_developer_fee''),
     (''receipt_exchange_fee'', ''receipt_exchange_fee''),
     (''receipt_subtotal_amount'', ''receipt_subtotal_amount''),
     (''receipt_gas_fee'', ''receipt_gas_fee''),
     (''receipt_final_amount'', ''receipt_final_amount''),
     (''receipt_source_tx_hash'', ''receipt_source_tx_hash''),
     (''receipt_destination_tx_hash'', ''receipt_destination_tx_hash''),
     (''receipt_url'', ''receipt_url''),
     (''features_flexible_amount'', ''features_flexible_amount''),
     (''features_static_template'', ''features_static_template''),
     (''features_allow_any_from_address'', ''features_allow_any_from_address'')]"

definition column_mapping :: "(string \<times> string) list" where
  "column_mapping = [
     (''id'', ''id''),
     (''first_name'', ''first_name''),
     (''last_name'', ''last_name''),
     (''email'', ''email''),
     (''status'', ''status''),
     (''capabilities_payin_crypto'', ''payin_crypto''),
     (''capabilities_payout_crypto'', ''payout_crypto''),
     (''capabilities_payin_fiat'', ''payin_fiat''),
     (''capabilities_payout_fiat'', ''payout_fiat''),
     (''created_at'', ''created_at''),
     (''updated_at'', ''updated_at'')]"

section \<open>The normalizer\<close>

text \<open>
  \<^verbatim>\<open>_normalize\<close>. \<^verbatim>\<open>datetime.fromisoformat\<close> belongs to the Python library, not to
  the repository: it is the parameter \<open>fromisoformat\<close>, \<open>None\<close> where the library
  raises (the \<^verbatim>\<open>except Exception: pass\<close> branch).
\<close>

definition fix_gas_fee :: "dict \<Rightarrow> dict" where
  "fix_gas_fee out =
     (case map_of out ''receipt_gas_fe'' of
        Some v \<Rightarrow> if \<not> has_key ''receipt_gas_fee'' out
                  then AList.update ''receipt_gas_fee'' v out else out
      | None \<Rightarrow> out)"

definition endswith_Z :: "string \<Rightarrow> bool" where
  "endswith_Z s = (s \<noteq> [] \<and> last s = CHR ''Z'')"

definition rewrite_Z :: "string \<Rightarrow> string" where
  "rewrite_Z s = (if endswith_Z s then butlast s @ ''+00:00'' else s)"

definition normalize_time :: "(string \<Rightarrow> datetime option) \<Rightarrow> string \<Rightarrow> dict \<Rightarrow> dict" where
  "normalize_time fromisoformat tkey out =
     (case map_of out tkey of
        Some (JStr s) \<Rightarrow>
          (case fromisoformat (rewrite_Z s) of
             Some dt \<Rightarrow> AList.update tkey (JDateTime dt) out
           | None \<Rightarrow> out)
      | _ \<Rightarrow> out)"

definition normalize_flat :: "(string \<Rightarrow> datetime option) \<Rightarrow> dict \<Rightarrow> dict" where
  "normalize_flat fromisoformat flat =
     fold (normalize_time fromisoformat) [''created_at'', ''updated_at''] (fix_gas_fee flat)"

text \<open>
  The same function over a store of dict objects, to see which object each statement
  writes: \<^verbatim>\<open>out = dict(flat)\<close> allocates a new object (a new address, the copy of the
  items), and every later statement writes \<^verbatim>\<open>out\<close>.
\<close>

type_synonym heap = "dict list"

definition heap_alloc :: "heap \<Rightarrow> dict \<Rightarrow> nat \<times> heap" where
  "heap_alloc h d = (length h, h @ [d])"

definition heap_modify :: "heap \<Rightarrow> nat \<Rightarrow> (dict \<Rightarrow> dict) \<Rightarrow> heap" where
  "heap_modify h a f = (if a < length h then h[a := f (h ! a)] else h)"

definition normalize_heap :: "(string \<Rightarrow> datetime option) \<Rightarrow> heap \<Rightarrow> nat \<Rightarrow> nat \<times> heap" where
  "normalize_heap fromisoformat h flat =
     (let (out, h1) = heap_alloc h (h ! flat);
          h2 = heap_modify h1 out fix_gas_fee;
          h3 = fold (\<lambda>tkey hp. heap_modify hp out (normalize_time fromisoformat tkey))
                 [''created_at'', ''updated_at''] h2
      in (out, h3))"

section \<open>The column mapper\<close>

text \<open>
  The loop of \<^verbatim>\<open>upsert_bridge_transfer\<close> (and of \<^verbatim>\<open>insert_user\<close>) over the items of
  the mapping table:
  \<^verbatim>\<open>
  for k, col in KEY_TO_COL.items():
      if k in norm:
          cols = list(cols) + [col]
          vals = list(vals) + [norm[k]]
  \<close>
\<close>

fun map_columns_loop ::
  "(string \<times> string) list \<Rightarrow> dict \<Rightarrow> string list \<times> json list \<Rightarrow> string list \<times> json list" where
  "map_columns_loop [] norm (cols, vals) = (cols, vals)"
| "map_columns_loop ((k, col) # rest) norm (cols, vals) =
     (case map_of norm k of
        Some v \<Rightarrow> map_columns_loop rest norm (cols @ [col], vals @ [v])
      | None \<Rightarrow> map_columns_loop rest norm (cols, vals))"

definition map_columns :: "(string \<times> string) list \<Rightarrow> dict \<Rightarrow> string list \<times> json list" where
  "map_columns table norm = map_columns_loop table norm ([], [])"

section \<open>The database connection\<close>

text \<open>
  The psycopg2 connection is the programs' collaborator. Its state here: the committed
  tables, the tables as the open transaction sees them, whether the open transaction
  is aborted (a statement of it failed; PostgreSQL then refuses every statement until a
  rollback), and the trace of the calls made on the connection.

  \<^verbatim>\<open>bridge_transfers\<close> has \<^verbatim>\<open>id TEXT PRIMARY KEY\<close> (TransferTableCreation.py): at
  most one row per id, a map from the id to the row. \<^verbatim>\<open>users\<close> has no key
  (CustomerTableCreation.py): a list of rows. A row maps column names to values.
\<close>

type_synonym row = "string \<rightharpoonup> json"

record db =
  bridge_transfers :: "json \<rightharpoonup> row"
  users :: "row list"

text \<open>
  The statements the programs build. \<open>UpsertSql col_list placeholders set_list\<close> is
  \<^verbatim>\<open>INSERT INTO bridge_transfers ({col_list}) VALUES ({placeholders})
  ON CONFLICT (id) DO UPDATE SET {set_list}\<close>, with the columns of \<^verbatim>\<open>col_list\<close>, the
  number of \<^verbatim>\<open>%s\<close> placeholders, and the columns \<open>c\<close> of the \<^verbatim>\<open>c=EXCLUDED.c\<close>
  assignments. \<open>InsertSql columns placeholders\<close> is
  \<^verbatim>\<open>INSERT INTO users ({columns}) VALUES ({placeholders})\<close>.
\<close>

datatype sql =
    UpsertSql (col_list: "string list") (placeholders: nat) (set_list: "string list")
  | InsertSql (columns: "string list") (n_placeholders: nat)

datatype call = Execute sql "json list" | Commit | Rollback

datatype error = ValueError string | DatabaseError

record conn =
  committed :: db
  pending :: db
  aborted :: bool
  calls :: "call list"

definition row_of :: "string list \<Rightarrow> json list \<Rightarrow> row" where
  "row_of cols vals = map_of (zip cols vals)"

text \<open>
  What PostgreSQL does with a statement it accepts. The insert with
  \<^verbatim>\<open>ON CONFLICT (id) DO UPDATE\<close>: without a row of that id the proposed row is
  inserted; with one, the columns of the \<^verbatim>\<open>SET\<close> list take the proposed row's values
  and every other column keeps its value. A proposed row without an id, or with a null
  id, violates the primary key: \<open>None\<close>.
\<close>

definition run_sql :: "sql \<Rightarrow> json list \<Rightarrow> db \<Rightarrow> db option" where
  "run_sql q params d =
     (case q of
        UpsertSql cols n sets \<Rightarrow>
          (case row_of cols params ''id'' of
             None \<Rightarrow> None
           | Some idv \<Rightarrow>
               if idv = JNull then None
               else Some (d\<lparr>bridge_transfers :=
                 (case bridge_transfers d idv of
                    None \<Rightarrow> (bridge_transfers d)(idv \<mapsto> row_of cols params)
                  | Some old \<Rightarrow>
                      (bridge_transfers d)(idv \<mapsto> old ++ (row_of cols params |` set sets)))\<rparr>))
      | InsertSql cols n \<Rightarrow> Some (d\<lparr>users := users d @ [row_of cols params]\<rparr>))"

text \<open>
  \<^verbatim>\<open>cursor.execute(sql, params)\<close>. \<open>rejects\<close> is the server's verdict on a statement
  and its parameters (a syntax error, a value that does not cast to the column's type,
  a NOT NULL column left out): the tables have no constraint across rows but the
  primary key, so the verdict depends on the statement alone. A failed statement
  raises and leaves the transaction aborted.
\<close>

definition execute ::
  "(sql \<Rightarrow> json list \<Rightarrow> bool) \<Rightarrow> conn \<Rightarrow> sql \<Rightarrow> json list \<Rightarrow> (error + unit) \<times> conn" where
  "execute rejects c q params =
     (let c' = c\<lparr>calls := calls c @ [Execute q params]\<rparr> in
      if aborted c then (Inl DatabaseError, c')
      else if rejects q params then (Inl DatabaseError, c'\<lparr>aborted := True\<rparr>)
      else case run_sql q params (pending c) of
             None \<Rightarrow> (Inl DatabaseError, c'\<lparr>aborted := True\<rparr>)
           | Some d \<Rightarrow> (Inr (), c'\<lparr>pending := d\<rparr>))"

text \<open>
  \<^verbatim>\<open>conn.commit()\<close> and \<^verbatim>\<open>conn.rollback()\<close>. Committing an aborted transaction
  rolls it back.
\<close>

definition commit :: "conn \<Rightarrow> conn" where
  "commit c =
     (let d = (if aborted c then committed c else pending c) in
      c\<lparr>committed := d, pending := d, aborted := False, calls := calls c @ [Commit]\<rparr>)"

definition rollback :: "conn \<Rightarrow> conn" where
  "rollback c =
     c\<lparr>pending := committed c, aborted := False, calls := calls c @ [Rollback]\<rparr>"

section \<open>The upsert of a transfer, the insert of a user\<close>

text \<open>
  \<^verbatim>\<open>upsert_bridge_transfer(conn, transfer_json)\<close>: flatten, normalize, map the columns,
  check the id, build the statement, execute, commit, return
  \<^verbatim>\<open>(1, len(cols))\<close>. The function has no \<^verbatim>\<open>try\<close>: what \<^verbatim>\<open>execute\<close> raises leaves
  the function at once.
\<close>

definition upsert_bridge_transfer ::
  "(sql \<Rightarrow> json list \<Rightarrow> bool) \<Rightarrow> (string \<Rightarrow> datetime option) \<Rightarrow> conn \<Rightarrow> dict
     \<Rightarrow> (error + nat \<times> nat) \<times> conn" where
  "upsert_bridge_transfer rejects fromisoformat c transfer_json =
     (let flat = flatten transfer_json [] ''_'';
          norm = normalize_flat fromisoformat flat;
          (cols, vals) = map_columns KEY_TO_COL norm
      in if \<not> has_key ''id'' transfer_json
         then (Inl (ValueError (''transfer_json missing required '' @ [CHR 0x27] @ ''id'' @ [CHR 0x27])), c)
         else
           let sql = UpsertSql cols (length cols) (filter (\<lambda>c. c \<noteq> ''id'') cols)
           in case execute rejects c sql vals of
                (Inl e, c') \<Rightarrow> (Inl e, c')
              | (Inr _, c') \<Rightarrow> (Inr (1, length cols), commit c'))"

text \<open>
  \<^verbatim>\<open>insert_user(conn, user_json)\<close>: the whole body is in a \<^verbatim>\<open>try\<close> whose handler
  rolls back and returns \<^verbatim>\<open>False\<close>; an empty column list returns \<^verbatim>\<open>False\<close> before
  the statement is built.
\<close>

definition insert_user ::
  "(sql \<Rightarrow> json list \<Rightarrow> bool) \<Rightarrow> conn \<Rightarrow> dict \<Rightarrow> bool \<times> conn" where
  "insert_user rejects c user_json =
     (let flat_data = flatten user_json [] ''_'';
          (columns, values) = map_columns column_mapping flat_data
      in if columns = [] then (False, c)
         else
           let sql = InsertSql columns (length columns)
           in case execute rejects c sql values of
                (Inl e, c') \<Rightarrow> (False, rollback c')
              | (Inr _, c') \<Rightarrow> (True, commit c'))"

section \<open>The flatteners of the CSV exports\<close>

text \<open>Python's \<^verbatim>\<open>str(i)\<close> of a list index: its decimal digits.\<close>

definition digit_char :: "nat \<Rightarrow> char" where
  "digit_char n = ''0123456789'' ! n"

fun str_nat :: "nat \<Rightarrow> string" where
  "str_nat n = (if n < 10 then [digit_char n] else str_nat (n div 10) @ [digit_char (n mod 10)])"

declare str_nat.simps [simp del]

definition index_key :: "string \<Rightarrow> string \<Rightarrow> nat \<Rightarrow> string" where
  "index_key parent_key sep i =
     (if parent_key \<noteq> [] then parent_key @ sep @ str_nat i else str_nat i)"

definition is_container :: "json \<Rightarrow> bool" where
  "is_container v = (case v of JDict d \<Rightarrow> True | JList xs \<Rightarrow> True | _ \<Rightarrow> False)"

text \<open>
  \<^verbatim>\<open>flatten_json(data, parent_key, sep)\<close> of LiqAddHistoric.py ("Flatten nested JSON
  structure for CSV export"): three branches on the type of \<^verbatim>\<open>data\<close>; the dict branch
  and the list branch each run a loop that appends to \<^verbatim>\<open>items\<close>, the list branch
  numbering the elements with \<^verbatim>\<open>enumerate\<close>; the result is \<^verbatim>\<open>dict(items)\<close>.
\<close>

function (sequential) flatten_json :: "json \<Rightarrow> string \<Rightarrow> string \<Rightarrow> dict"
  and flatten_json_items :: "dict \<Rightarrow> string \<Rightarrow> string \<Rightarrow> dict \<Rightarrow> dict"
  and flatten_json_elems :: "json list \<Rightarrow> nat \<Rightarrow> string \<Rightarrow> string \<Rightarrow> dict \<Rightarrow> dict" where
  "flatten_json (JDict d) parent_key sep =
     dict_of_items (flatten_json_items d parent_key sep [])"
| "flatten_json (JList xs) parent_key sep =
     dict_of_items (flatten_json_elems xs 0 parent_key sep [])"
| "flatten_json v parent_key sep = dict_of_items [(parent_key, v)]"
| "flatten_json_items [] parent_key sep items = items"
| "flatten_json_items (kv # rest) parent_key sep items =
     flatten_json_items rest parent_key sep
       (if is_container (snd kv)
        then items @ flatten_json (snd kv) (compose_key parent_key sep (fst kv)) sep
        else items @ [(compose_key parent_key sep (fst kv), snd kv)])"
| "flatten_json_elems [] i parent_key sep items = items"
| "flatten_json_elems (item # rest) i parent_key sep items =
     flatten_json_elems rest (Suc i) parent_key sep
       (if is_container item
        then items @ flatten_json item (index_key parent_key sep i) sep
        else items @ [(index_key parent_key sep i, item)])"
  by pat_completeness auto
termination
  by (relation "measure (case_sum (\<lambda>(v, p, s). size v)
        (case_sum (\<lambda>(d, p, s, items). size_list (size_prod (\<lambda>_. 0) size) d)
                  (\<lambda>(xs, i, p, s, items). size_list size xs)))")
     auto

text \<open>\<^verbatim>\<open>sep.join(parts)\<close>.\<close>

fun join :: "string \<Rightarrow> string list \<Rightarrow> string" where
  "join sep [] = []"
| "join sep [p] = p"
| "join sep (p # ps) = p @ sep @ join sep ps"

text \<open>
  \<^verbatim>\<open>flatten_dict(d, parent_key, sep)\<close> of utils/logging_functions.py, the flattener of
  \<^verbatim>\<open>json_response_to_flat_csv_bytes\<close>: a list becomes the string
  \<^verbatim>\<open>','.join(map(str, v))\<close>. Python's \<^verbatim>\<open>str\<close> is the parameter \<open>str_of\<close>.
\<close>

function (sequential) flatten_dict_loop ::
  "(json \<Rightarrow> string) \<Rightarrow> dict \<Rightarrow> string \<Rightarrow> string \<Rightarrow> dict \<Rightarrow> dict" where
  "flatten_dict_loop str_of [] parent_key sep items = items"
| "flatten_dict_loop str_of ((k, JDict d) # rest) parent_key sep items =
     flatten_dict_loop str_of rest parent_key sep
       (items @ dict_of_items (flatten_dict_loop str_of d (compose_key parent_key sep k) sep []))"
| "flatten_dict_loop str_of ((k, JList xs) # rest) parent_key sep items =
     flatten_dict_loop str_of rest parent_key sep
       (items @ [(compose_key parent_key sep k, JStr (join '','' (map str_of xs)))])"
| "flatten_dict_loop str_of ((k, v) # rest) parent_key sep items =
     flatten_dict_loop str_of rest parent_key sep (items @ [(compose_key parent_key sep k, v)])"
  by pat_completeness auto
termination
  by (relation "measure (\<lambda>(f, d, parent, sep, items). size_list (size_prod (\<lambda>_. 0) size) d)")
     auto


section \<open>Re-nesting a flat record\<close>











section \<open>The API functions\<close>

text \<open>
  utils/api_functions.py. The \<^verbatim>\<open>requests\<close> library is the collaborator: a call of
  \<^verbatim>\<open>requests.get/post/put\<close> either raises or returns a response, and each function
  below takes that outcome. \<open>RequestException\<close> stands for the exceptions of the class
  \<^verbatim>\<open>requests.exceptions.RequestException\<close> (connection errors, timeouts, the
  \<^verbatim>\<open>HTTPError\<close> of \<^verbatim>\<open>raise_for_status\<close>), \<open>OtherException\<close> for every other one;
  each carries its message, \<^verbatim>\<open>str(e)\<close>.
\<close>

datatype exn = RequestException string | OtherException string

fun message :: "exn \<Rightarrow> string" where
  "message (RequestException m) = m"
| "message (OtherException m) = m"

text \<open>
  A response: \<^verbatim>\<open>.status_code\<close>, \<^verbatim>\<open>.reason\<close>, \<^verbatim>\<open>.url\<close>, \<^verbatim>\<open>.text\<close> (here
  \<open>body_text\<close>), what \<^verbatim>\<open>.json()\<close> returns or raises, \<^verbatim>\<open>.headers\<close>.
  \<^verbatim>\<open>raise_for_status()\<close> raises the \<^verbatim>\<open>HTTPError\<close> on a 4xx or 5xx status, and
  \<^verbatim>\<open>.ok\<close> is whether it does not raise.
\<close>

record response =
  status_code :: int
  reason :: string
  url :: string
  body_text :: string
  json_body :: "exn + json"
  headers :: dict

definition raise_for_status :: "response \<Rightarrow> exn + unit" where
  "raise_for_status r =
     (if 400 \<le> status_code r \<and> status_code r < 500
      then Inl (RequestException
             (str_nat (nat (status_code r)) @ '' Client Error: '' @ reason r @ '' for url: '' @ url r))
      else if 500 \<le> status_code r \<and> status_code r < 600
      then Inl (RequestException
             (str_nat (nat (status_code r)) @ '' Server Error: '' @ reason r @ '' for url: '' @ url r))
      else Inr ())"

definition ok :: "response \<Rightarrow> bool" where
  "ok r = (case raise_for_status r of Inl e \<Rightarrow> False | Inr u \<Rightarrow> True)"

text \<open>\<^verbatim>\<open>create_transfer\<close>: the handler catches \<^verbatim>\<open>RequestException\<close> only.\<close>

definition connection_failure :: "string \<Rightarrow> dict" where
  "connection_failure m =
     [(''status_code'', JNum 0),
      (''success'', JBool False),
      (''data'', JDict [(''error'',
         JStr (''Error de conexi'' @ [CHR 0xC3, CHR 0xB3] @ ''n: '' @ m))]),
      (''headers'', JDict [])]"

definition create_transfer_handler :: "exn \<Rightarrow> exn + dict" where
  "create_transfer_handler e =
     (case e of RequestException m \<Rightarrow> Inr (connection_failure m) | OtherException m \<Rightarrow> Inl e)"

definition create_transfer :: "exn + response \<Rightarrow> exn + dict" where
  "create_transfer posted =
     (case posted of
        Inl e \<Rightarrow> create_transfer_handler e
      | Inr r \<Rightarrow>
          if ok r
          then (case json_body r of
                  Inl e \<Rightarrow> create_transfer_handler e
                | Inr data \<Rightarrow>
                    Inr [(''status_code'', JNum (status_code r)),
                         (''success'', JBool (ok r)),
                         (''data'', data),
                         (''headers'', JDict (headers r))])
          else Inr [(''status_code'', JNum (status_code r)),
                    (''success'', JBool (ok r)),
                    (''data'', JDict [(''error'', JStr (body_text r))]),
                    (''headers'', JDict (headers r))])"

text \<open>
  \<^verbatim>\<open>update_static_transfer_fee\<close> and \<^verbatim>\<open>update_developer_fee\<close>: the handler catches
  every exception and returns \<^verbatim>\<open>(None, str(e), False)\<close>.
\<close>

definition update_static_transfer_fee :: "exn + response \<Rightarrow> exn + int option \<times> string \<times> bool" where
  "update_static_transfer_fee put =
     (case put of
        Inl e \<Rightarrow> Inr (None, message e, False)
      | Inr r \<Rightarrow> Inr (Some (status_code r), body_text r, True))"

definition update_developer_fee :: "exn + response \<Rightarrow> exn + int option \<times> string \<times> bool" where
  "update_developer_fee put =
     (case put of
        Inl e \<Rightarrow> Inr (None, message e, False)
      | Inr r \<Rightarrow> Inr (Some (status_code r), body_text r, True))"

text \<open>\<^verbatim>\<open>create_virtual_accounts\<close> and \<^verbatim>\<open>get_virtual_accounts\<close>: no \<^verbatim>\<open>try\<close>.\<close>

definition create_virtual_accounts :: "exn + response \<Rightarrow> exn + int option \<times> string \<times> bool" where
  "create_virtual_accounts posted =
     (case posted of
        Inl e \<Rightarrow> Inl e
      | Inr r \<Rightarrow> Inr (Some (status_code r), body_text r, True))"

definition get_virtual_accounts :: "exn + response \<Rightarrow> exn + int option \<times> string \<times> bool" where
  "get_virtual_accounts got =
     (case got of
        Inl e \<Rightarrow> Inl e
      | Inr r \<Rightarrow> Inr (Some (status_code r), body_text r, True))"

text \<open>
  \<^verbatim>\<open>fetch_client_data\<close> and \<^verbatim>\<open>fetch_transfer_data\<close>: no \<^verbatim>\<open>try\<close>;
  \<^verbatim>\<open>response.raise_for_status()\<close>, then \<^verbatim>\<open>response.json()\<close>. The docstrings say
  "Raises: requests.RequestException: If API request fails".
\<close>

definition fetch_client_data :: "exn + response \<Rightarrow> exn + json" where
  "fetch_client_data got =
     (case got of
        Inl e \<Rightarrow> Inl e
      | Inr r \<Rightarrow> (case raise_for_status r of Inl e \<Rightarrow> Inl e | Inr u \<Rightarrow> json_body r))"

definition fetch_transfer_data :: "exn + response \<Rightarrow> exn + json" where
  "fetch_transfer_data got =
     (case got of
        Inl e \<Rightarrow> Inl e
      | Inr r \<Rightarrow> (case raise_for_status r of Inl e \<Rightarrow> Inl e | Inr u \<Rightarrow> json_body r))"

section \<open>Concrete inputs\<close>

text \<open>
  An empty database behind a connection with no open work; a server that accepts every
  statement and one that refuses every statement; a library parser that refuses every
  string, and one that knows the single string \<^verbatim>\<open>2024-01-01T00:00:00+00:00\<close>.
\<close>

definition empty_db :: db where
  "empty_db = \<lparr>bridge_transfers = Map.empty, users = []\<rparr>"

definition fresh_conn :: conn where
  "fresh_conn = \<lparr>committed = empty_db, pending = empty_db, aborted = False, calls = []\<rparr>"

definition accept_all :: "sql \<Rightarrow> json list \<Rightarrow> bool" where
  "accept_all q params = False"

definition reject_all :: "sql \<Rightarrow> json list \<Rightarrow> bool" where
  "reject_all q params = True"

definition parse_nothing :: "string \<Rightarrow> datetime option" where
  "parse_nothing s = None"

definition utc_midnight_2024 :: datetime where
  "utc_midnight_2024 =
     \<lparr>year = 2024, month = 1, day = 1, hour = 0, minute = 0, second = 0, utcoffset = Some 0\<rparr>"

definition parse_midnight :: "string \<Rightarrow> datetime option" where
  "parse_midnight s = (if s = ''2024-01-01T00:00:00+00:00'' then Some utc_midnight_2024 else None)"


section \<open>Basic facts about dictionaries\<close>

lemma has_key_map_of: "has_key k d \<longleftrightarrow> map_of d k \<noteq> None"
  by (simp add: has_key_def keys_def map_of_eq_None_iff)

section \<open>The id check of the upsert\<close>

text \<open>
  C3. A raw record without an \<^verbatim>\<open>id\<close> field makes \<^verbatim>\<open>upsert_bridge_transfer\<close> raise the
  \<^verbatim>\<open>ValueError\<close>, and the connection is as it was: no call was made on it (nothing
  executed, nothing committed), so nothing was written. This holds whatever the server
  would have answered and whatever the library parser does.
\<close>

theorem upsert_missing_id:
  "\<not> has_key ''id'' transfer_json \<Longrightarrow>
   upsert_bridge_transfer rejects fromisoformat c transfer_json =
     (Inl (ValueError (''transfer_json missing required '' @ [CHR 0x27] @ ''id'' @ [CHR 0x27])), c)"
  by (simp add: upsert_bridge_transfer_def Let_def split: prod.splits)

theorem upsert_missing_id_witness:
  "\<not> has_key ''id'' [(''state'', JStr ''pending'')] \<and>
   upsert_bridge_transfer accept_all parse_nothing fresh_conn [(''state'', JStr ''pending'')] =
     (Inl (ValueError (''transfer_json missing required '' @ [CHR 0x27] @ ''id'' @ [CHR 0x27])),
      fresh_conn)"
  using upsert_missing_id[of "[(''state'', JStr ''pending'')]" accept_all parse_nothing fresh_conn]
  by (simp add: has_key_def keys_def)

section \<open>The column mapper\<close>

lemma map_columns_loop_acc:
  "map_columns_loop table norm (cols, vals) = (cols', vals') \<Longrightarrow>
   cols' = cols @ map snd (filter (\<lambda>kc. has_key (fst kc) norm) table) \<and>
   map Some vals' = map Some vals @
     map (\<lambda>kc. map_of norm (fst kc)) (filter (\<lambda>kc. has_key (fst kc) norm) table)"
proof (induction table arbitrary: cols vals)
  case Nil
  then show ?case by simp
next
  case (Cons kc table)
  obtain k col where kc: "kc = (k, col)" by (cases kc)
  show ?case
  proof (cases "map_of norm k")
    case None
    with Cons.prems kc have "map_columns_loop table norm (cols, vals) = (cols', vals')" by simp
    from Cons.IH[OF this] None kc show ?thesis by (simp add: has_key_map_of)
  next
    case (Some v)
    with Cons.prems kc have "map_columns_loop table norm (cols @ [col], vals @ [v]) = (cols', vals')"
      by simp
    from Cons.IH[OF this] Some kc show ?thesis by (simp add: has_key_map_of)
  qed
qed

text \<open>
  C7. For every flat record and every mapping table, the columns the mapper emits are
  the columns of exactly those table entries whose key is in the record, in the order
  of the table, and the values are the record's values at those keys, in the same
  order. So no column outside the table is emitted, no key that is both in the record
  and in the table is dropped, and the order of the record plays no part.
\<close>

theorem column_mapper_exact:
  "fst (map_columns table norm) = map snd (filter (\<lambda>kc. has_key (fst kc) norm) table) \<and>
   map Some (snd (map_columns table norm)) =
     map (\<lambda>kc. map_of norm (fst kc)) (filter (\<lambda>kc. has_key (fst kc) norm) table)"
  using map_columns_loop_acc[of table norm "[]" "[]" "fst (map_columns table norm)" "snd (map_columns table norm)"]
  by (simp add: map_columns_def)

theorem column_mapper_exact_witness:
  "map_columns column_mapping
     (flatten [(''capabilities'', JDict [(''payin_crypto'', JStr ''enabled'')]),
               (''nickname'', JStr ''jd''),
               (''id'', JStr ''user_123'')] [] ''_'') =
   ([''id'', ''payin_crypto''], [JStr ''user_123'', JStr ''enabled''])"
proof -
  let ?norm = "[(''capabilities_payin_crypto'', JStr ''enabled''),
                (''nickname'', JStr ''jd''), (''id'', JStr ''user_123'')]"
  have f: "flatten [(''capabilities'', JDict [(''payin_crypto'', JStr ''enabled'')]),
               (''nickname'', JStr ''jd''),
               (''id'', JStr ''user_123'')] [] ''_'' = ?norm"
    by (simp add: flatten_def compose_key_def dict_update_def)
  have "fst (map_columns column_mapping ?norm) = [''id'', ''payin_crypto''] \<and>
        map Some (snd (map_columns column_mapping ?norm)) =
          [Some (JStr ''user_123''), Some (JStr ''enabled'')]"
    using column_mapper_exact[of column_mapping ?norm]
    by (simp add: column_mapping_def has_key_def keys_def)
  then have "map_columns column_mapping ?norm =
      ([''id'', ''payin_crypto''], [JStr ''user_123'', JStr ''enabled''])"
    by (cases "map_columns column_mapping ?norm") (auto simp: map_eq_Cons_conv)
  with f show ?thesis by simp
qed

section \<open>The normalizer\<close>

lemma keys_update: "keys (AList.update k v d) = (if has_key k d then keys d else keys d @ [k])"
  by (simp add: keys_def has_key_def update_keys)

lemma keys_fix_gas_fee:
  "keys (fix_gas_fee d) =
     (if has_key ''receipt_gas_fe'' d \<and> \<not> has_key ''receipt_gas_fee'' d
      then keys d @ [''receipt_gas_fee''] else keys d)"
  by (auto simp: fix_gas_fee_def keys_update has_key_map_of split: option.splits)

lemma keys_normalize_time: "keys (normalize_time p tkey d) = keys d"
  by (auto simp: normalize_time_def keys_update has_key_map_of split: option.splits json.splits)

lemma keys_normalize:
  "keys (normalize_flat p d) =
     (if has_key ''receipt_gas_fe'' d \<and> \<not> has_key ''receipt_gas_fee'' d
      then keys d @ [''receipt_gas_fee''] else keys d)"
  by (simp add: normalize_flat_def keys_normalize_time keys_fix_gas_fee)

lemma map_of_fix_gas_fee:
  "k \<noteq> ''receipt_gas_fee'' \<Longrightarrow> map_of (fix_gas_fee d) k = map_of d k"
  by (simp add: fix_gas_fee_def update_conv' split: option.splits)

lemma map_of_normalize_time:
  "k \<noteq> tkey \<Longrightarrow> map_of (normalize_time p tkey d) k = map_of d k"
  by (simp add: normalize_time_def update_conv' split: option.splits json.splits)

lemma map_of_normalize_other:
  "k \<noteq> ''created_at'' \<Longrightarrow> k \<noteq> ''updated_at'' \<Longrightarrow> k \<noteq> ''receipt_gas_fee'' \<Longrightarrow>
   map_of (normalize_flat p d) k = map_of d k"
  by (simp add: normalize_flat_def map_of_normalize_time map_of_fix_gas_fee)

lemma heap_modify_last: "heap_modify (h @ [d]) (length h) f = h @ [f d]"
  by (simp add: heap_modify_def)

lemma normalize_heap_eq:
  "normalize_heap p h flat = (length h, h @ [normalize_flat p (h ! flat)])"
  by (simp add: normalize_heap_def heap_alloc_def heap_modify_last normalize_flat_def)

text \<open>
  C10. Normalization leaves its input as it was: over the store, the result is a new
  object (the address after the last one), every object that was there, the input
  among them, is unchanged, and the new object holds the normalized record. It removes
  no key; the misspelled key \<^verbatim>\<open>receipt_gas_fe\<close> keeps its value; and every key other
  than \<^verbatim>\<open>created_at\<close>, \<^verbatim>\<open>updated_at\<close> and \<^verbatim>\<open>receipt_gas_fee\<close> has the value it had
  (or is absent as it was).
\<close>

theorem normalize_frame:
  "flat < length h \<Longrightarrow>
   normalize_heap p h flat = (length h, h @ [normalize_flat p (h ! flat)]) \<and>
   snd (normalize_heap p h flat) ! flat = h ! flat \<and>
   set (keys d) \<subseteq> set (keys (normalize_flat p d)) \<and>
   map_of (normalize_flat p d) ''receipt_gas_fe'' = map_of d ''receipt_gas_fe'' \<and>
   (\<forall>k. k \<notin> {''created_at'', ''updated_at'', ''receipt_gas_fee''} \<longrightarrow>
        map_of (normalize_flat p d) k = map_of d k)"
  by (auto simp: normalize_heap_eq nth_append keys_normalize map_of_normalize_other)

theorem normalize_frame_witness:
  "(0::nat) < length [[(''receipt_gas_fe'', JStr ''0.1''), (''amount'', JStr ''5'')]] \<and>
   normalize_heap parse_nothing [[(''receipt_gas_fe'', JStr ''0.1''), (''amount'', JStr ''5'')]] 0 =
     (1, [[(''receipt_gas_fe'', JStr ''0.1''), (''amount'', JStr ''5'')],
          [(''receipt_gas_fe'', JStr ''0.1''), (''amount'', JStr ''5''),
           (''receipt_gas_fee'', JStr ''0.1'')]])"
  using normalize_frame[of 0 "[[(''receipt_gas_fe'', JStr ''0.1''), (''amount'', JStr ''5'')]]"
      parse_nothing "[]"]
  by (simp add: normalize_flat_def fix_gas_fee_def normalize_time_def has_key_def keys_def)

lemma rewrite_Z_snoc: "rewrite_Z (s @ ''Z'') = s @ ''+00:00''"
  by (simp add: rewrite_Z_def endswith_Z_def)

lemma map_of_normalize_time_same:
  "map_of d tkey = Some (JStr s) \<Longrightarrow>
   map_of (normalize_time p tkey d) tkey =
     (case p (rewrite_Z s) of Some dt \<Rightarrow> Some (JDateTime dt) | None \<Rightarrow> Some (JStr s))"
  by (simp add: normalize_time_def update_conv' split: option.splits)

lemma map_of_normalize_gas:
  "map_of d ''receipt_gas_fe'' = Some v \<Longrightarrow> \<not> has_key ''receipt_gas_fee'' d \<Longrightarrow>
   map_of (normalize_flat p d) ''receipt_gas_fee'' = Some v"
  by (simp add: normalize_flat_def map_of_normalize_time fix_gas_fee_def update_conv')

lemma map_of_normalize_tkey:
  assumes "tkey = ''created_at'' \<or> tkey = ''updated_at''" "map_of d tkey = Some (JStr s)"
  shows "map_of (normalize_flat p d) tkey =
     (case p (rewrite_Z s) of Some dt \<Rightarrow> Some (JDateTime dt) | None \<Rightarrow> Some (JStr s))"
proof -
  have g: "map_of (fix_gas_fee d) tkey = Some (JStr s)"
    using assms by (auto simp: map_of_fix_gas_fee)
  from assms(1) show ?thesis
  proof
    assume t: "tkey = ''created_at''"
    then show ?thesis using g
      by (simp add: normalize_flat_def map_of_normalize_time map_of_normalize_time_same)
  next
    assume t: "tkey = ''updated_at''"
    then have "map_of (normalize_time p ''created_at'' (fix_gas_fee d)) ''updated_at'' = Some (JStr s)"
      using g by (simp add: map_of_normalize_time)
    then show ?thesis using t
      by (simp add: normalize_flat_def map_of_normalize_time_same)
  qed
qed

text \<open>
  C6. The rules of the normalizer. (1) A record with \<^verbatim>\<open>receipt_gas_fe\<close> and without
  \<^verbatim>\<open>receipt_gas_fee\<close> gets \<^verbatim>\<open>receipt_gas_fee\<close> with the misspelled key's value.
  (2) For \<^verbatim>\<open>created_at\<close> and \<^verbatim>\<open>updated_at\<close>, a string value ending in \<^verbatim>\<open>Z\<close> is handed
  to the library parser with the \<^verbatim>\<open>Z\<close> replaced by \<^verbatim>\<open>+00:00\<close>; where the parser
  returns a datetime, that datetime is the new value; where it fails, the value is the
  original string. So \<^verbatim>\<open>2024-01-01T00:00:00Z\<close> becomes whatever datetime the library
  reads from \<^verbatim>\<open>2024-01-01T00:00:00+00:00\<close>.
\<close>

theorem normalize_rules:
  "(map_of flat ''receipt_gas_fe'' = Some v \<and> \<not> has_key ''receipt_gas_fee'' flat \<longrightarrow>
      map_of (normalize_flat p flat) ''receipt_gas_fee'' = Some v) \<and>
   ((tkey = ''created_at'' \<or> tkey = ''updated_at'') \<and> map_of flat tkey = Some (JStr (s @ ''Z'')) \<longrightarrow>
      (\<forall>dt. p (s @ ''+00:00'') = Some dt \<longrightarrow> map_of (normalize_flat p flat) tkey = Some (JDateTime dt)) \<and>
      (p (s @ ''+00:00'') = None \<longrightarrow> map_of (normalize_flat p flat) tkey = Some (JStr (s @ ''Z'')))) \<and>
   (\<forall>dt. p ''2024-01-01T00:00:00+00:00'' = Some dt \<longrightarrow>
      normalize_flat p [(''created_at'', JStr ''2024-01-01T00:00:00Z'')] = [(''created_at'', JDateTime dt)])"
proof (intro conjI impI allI)
  assume "map_of flat ''receipt_gas_fe'' = Some v \<and> \<not> has_key ''receipt_gas_fee'' flat"
  then show "map_of (normalize_flat p flat) ''receipt_gas_fee'' = Some v"
    by (simp add: map_of_normalize_gas)
next
  fix dt
  assume a: "(tkey = ''created_at'' \<or> tkey = ''updated_at'') \<and> map_of flat tkey = Some (JStr (s @ ''Z''))"
    and b: "p (s @ ''+00:00'') = Some dt"
  from a have "map_of (normalize_flat p flat) tkey =
     (case p (rewrite_Z (s @ ''Z'')) of Some dt \<Rightarrow> Some (JDateTime dt) | None \<Rightarrow> Some (JStr (s @ ''Z'')))"
    by (intro map_of_normalize_tkey) auto
  with b show "map_of (normalize_flat p flat) tkey = Some (JDateTime dt)"
    by (simp add: rewrite_Z_snoc)
next
  assume a: "(tkey = ''created_at'' \<or> tkey = ''updated_at'') \<and> map_of flat tkey = Some (JStr (s @ ''Z''))"
    and b: "p (s @ ''+00:00'') = None"
  from a have "map_of (normalize_flat p flat) tkey =
     (case p (rewrite_Z (s @ ''Z'')) of Some dt \<Rightarrow> Some (JDateTime dt) | None \<Rightarrow> Some (JStr (s @ ''Z'')))"
    by (intro map_of_normalize_tkey) auto
  with b show "map_of (normalize_flat p flat) tkey = Some (JStr (s @ ''Z''))"
    by (simp add: rewrite_Z_snoc)
next
  fix dt
  assume "p ''2024-01-01T00:00:00+00:00'' = Some dt"
  then show "normalize_flat p [(''created_at'', JStr ''2024-01-01T00:00:00Z'')] = [(''created_at'', JDateTime dt)]"
    by (simp add: normalize_flat_def fix_gas_fee_def normalize_time_def rewrite_Z_def endswith_Z_def)
qed

theorem normalize_rules_witness:
  "map_of (normalize_flat parse_midnight
      [(''receipt_gas_fe'', JStr ''0.1''), (''created_at'', JStr ''2024-01-01T00:00:00Z'')])
      ''receipt_gas_fee'' = Some (JStr ''0.1'') \<and>
   map_of (normalize_flat parse_midnight
      [(''receipt_gas_fe'', JStr ''0.1''), (''created_at'', JStr ''2024-01-01T00:00:00Z'')])
      ''created_at'' = Some (JDateTime utc_midnight_2024) \<and>
   map_of (normalize_flat parse_nothing
      [(''receipt_gas_fe'', JStr ''0.1''), (''created_at'', JStr ''2024-01-01T00:00:00Z'')])
      ''created_at'' = Some (JStr ''2024-01-01T00:00:00Z'') \<and>
   normalize_flat parse_midnight [(''created_at'', JStr ''2024-01-01T00:00:00Z'')] =
     [(''created_at'', JDateTime utc_midnight_2024)]"
  using normalize_rules[of
      "[(''receipt_gas_fe'', JStr ''0.1''), (''created_at'', JStr ''2024-01-01T00:00:00Z'')]"
      "JStr ''0.1''" parse_midnight "''created_at''" "''2024-01-01T00:00:00''"]
    normalize_rules[of
      "[(''receipt_gas_fe'', JStr ''0.1''), (''created_at'', JStr ''2024-01-01T00:00:00Z'')]"
      "JStr ''0.1''" parse_nothing "''created_at''" "''2024-01-01T00:00:00''"]
  by (simp add: parse_midnight_def parse_nothing_def has_key_def keys_def)

section \<open>The upsert: errors, empty column lists, replay\<close>

lemma flatten_id_only: "flatten [(''id'', JStr ''t1'')] [] ''_'' = [(''id'', JStr ''t1'')]"
  by (simp add: flatten_def compose_key_def)

lemma normalize_id_only: "normalize_flat p [(''id'', v)] = [(''id'', v)]"
  by (simp add: normalize_flat_def fix_gas_fee_def normalize_time_def)

lemma map_columns_id_only: "map_columns KEY_TO_COL [(''id'', v)] = ([''id''], [v])"
  by (simp add: map_columns_def KEY_TO_COL_def)

lemma insert_user_error_rollback:
  "insert_user reject_all fresh_conn [(''id'', JStr ''u1'')] =
     (False,
      fresh_conn\<lparr>calls := [Execute (InsertSql [''id''] 1) [JStr ''u1''], Rollback]\<rparr>)"
  by (simp add: insert_user_def flatten_def compose_key_def map_columns_def column_mapping_def
      execute_def rollback_def reject_all_def fresh_conn_def Let_def)

lemma upsert_never_calls_rollback:
  "upsert_bridge_transfer rejects fromisoformat c t = (r, c') \<Longrightarrow>
   filter (\<lambda>x. x = Rollback) (calls c') = filter (\<lambda>x. x = Rollback) (calls c)"
  by (auto simp: upsert_bridge_transfer_def execute_def commit_def Let_def
           split: if_splits option.splits prod.splits sum.splits)

text \<open>
  C2. The server refuses the statement of \<^verbatim>\<open>{"id": "t1"}\<close>. The upsert surfaces the
  error (the result is the error, nothing is committed), but the trace of calls on the
  connection ends with the \<^verbatim>\<open>execute\<close>: there is no \<^verbatim>\<open>rollback\<close>, and the transaction
  is left aborted. On no input does the upsert call \<^verbatim>\<open>rollback\<close>
  (\<open>upsert_never_calls_rollback\<close>); \<^verbatim>\<open>insert_user\<close>, on the same server, does
  (\<open>insert_user_error_rollback\<close>).
\<close>

theorem upsert_error_no_rollback:
  "upsert_bridge_transfer reject_all parse_nothing fresh_conn [(''id'', JStr ''t1'')] =
     (Inl DatabaseError,
      fresh_conn\<lparr>aborted := True,
                 calls := [Execute (UpsertSql [''id''] 1 []) [JStr ''t1'']]\<rparr>)"
  by (simp add: upsert_bridge_transfer_def flatten_id_only normalize_id_only map_columns_id_only
      has_key_def keys_def execute_def reject_all_def fresh_conn_def Let_def)

lemma flatten_id_dict:
  "flatten [(''id'', JDict [(''x'', JNum 1)])] [] ''_'' = [(''id_x'', JNum 1)]"
  by (simp add: flatten_def compose_key_def dict_update_def)

lemma normalize_id_x: "normalize_flat p [(''id_x'', v)] = [(''id_x'', v)]"
  by (simp add: normalize_flat_def fix_gas_fee_def normalize_time_def)

lemma map_columns_id_x: "map_columns KEY_TO_COL [(''id_x'', v)] = ([], [])"
  by (simp add: map_columns_def KEY_TO_COL_def)

lemma insert_user_no_columns:
  "fst (map_columns column_mapping (flatten user_json [] ''_'')) = [] \<Longrightarrow>
   insert_user rejects c user_json = (False, c)"
  by (auto simp: insert_user_def Let_def split: prod.splits)

text \<open>
  C4. The flat record of \<^verbatim>\<open>{"id": {"x": 1}}\<close> is \<^verbatim>\<open>{"id_x": 1}\<close>: it shares no key with
  \<^verbatim>\<open>KEY_TO_COL\<close>, and the id check passes since \<^verbatim>\<open>id\<close> is a key of the raw record. The
  upsert builds the statement with an empty column list and executes it; what fails is
  the server. (\<^verbatim>\<open>insert_user\<close> returns \<^verbatim>\<open>False\<close> before it builds a statement:
  \<open>insert_user_no_columns\<close>.)
\<close>

theorem upsert_no_columns_executes:
  "map_columns KEY_TO_COL
     (normalize_flat parse_nothing (flatten [(''id'', JDict [(''x'', JNum 1)])] [] ''_'')) = ([], []) \<and>
   upsert_bridge_transfer accept_all parse_nothing fresh_conn [(''id'', JDict [(''x'', JNum 1)])] =
     (Inl DatabaseError,
      fresh_conn\<lparr>aborted := True, calls := [Execute (UpsertSql [] 0 []) []]\<rparr>)"
  by (simp add: upsert_bridge_transfer_def flatten_id_dict normalize_id_x map_columns_id_x
      has_key_def keys_def execute_def run_sql_def row_of_def accept_all_def fresh_conn_def Let_def)

lemma restrict_add_same: "r ++ (r |` S) = r"
  by (rule ext) (simp add: map_add_def restrict_map_def split: option.splits)

lemma add_add_same: "(old ++ r) ++ r = old ++ r"
  by (rule ext) (simp add: map_add_def split: option.splits)

lemma run_sql_upsert_idem:
  assumes "run_sql (UpsertSql cols n sets) params d = Some d'"
  shows "run_sql (UpsertSql cols n sets) params d' = Some d'"
proof -
  from assms obtain idv where idv: "row_of cols params ''id'' = Some idv" "idv \<noteq> JNull"
    by (auto simp: run_sql_def split: option.splits if_splits)
  show ?thesis
  proof (cases "bridge_transfers d idv")
    case None
    with assms idv have d': "d' = d\<lparr>bridge_transfers := (bridge_transfers d)(idv \<mapsto> row_of cols params)\<rparr>"
      by (simp add: run_sql_def)
    show ?thesis
      by (simp add: run_sql_def idv d' restrict_add_same)
  next
    case (Some old)
    with assms idv have d': "d' = d\<lparr>bridge_transfers :=
        (bridge_transfers d)(idv \<mapsto> old ++ (row_of cols params |` set sets))\<rparr>"
      by (simp add: run_sql_def)
    show ?thesis
      by (simp add: run_sql_def idv d' add_add_same)
  qed
qed

lemma run_sql_upsert_row:
  assumes "run_sql (UpsertSql cols n sets) params d = Some d'"
  shows "\<exists>idv row. row_of cols params ''id'' = Some idv \<and> bridge_transfers d' idv = Some row \<and>
           (\<forall>c v. c \<in> set sets \<and> row_of cols params c = Some v \<longrightarrow> row c = Some v)"
proof -
  from assms obtain idv where idv: "row_of cols params ''id'' = Some idv" "idv \<noteq> JNull"
    by (auto simp: run_sql_def split: option.splits if_splits)
  show ?thesis
  proof (cases "bridge_transfers d idv")
    case None
    with assms idv have d': "d' = d\<lparr>bridge_transfers := (bridge_transfers d)(idv \<mapsto> row_of cols params)\<rparr>"
      by (simp add: run_sql_def)
    show ?thesis using idv by (simp add: d')
  next
    case (Some old)
    with assms idv have d': "d' = d\<lparr>bridge_transfers :=
        (bridge_transfers d)(idv \<mapsto> old ++ (row_of cols params |` set sets))\<rparr>"
      by (simp add: run_sql_def)
    show ?thesis using idv by (auto simp: d' map_add_def restrict_map_def split: option.splits)
  qed
qed

text \<open>What one call of the upsert does to the connection, by the three ways it can end.\<close>

lemma upsert_cases:
  assumes "has_key ''id'' t"
    and "map_columns KEY_TO_COL (normalize_flat p (flatten t [] ''_'')) = (cols, vals)"
    and "upsert_bridge_transfer rej p c t = (r, c')"
  shows "(\<exists>e. r = Inl e \<and> committed c' = committed c \<and> pending c' = pending c \<and> aborted c') \<or>
         (\<exists>d. r = Inr (1, length cols) \<and> \<not> aborted c \<and> \<not> aborted c' \<and>
              \<not> rej (UpsertSql cols (length cols) (filter (\<lambda>c. c \<noteq> ''id'') cols)) vals \<and>
              run_sql (UpsertSql cols (length cols) (filter (\<lambda>c. c \<noteq> ''id'') cols)) vals (pending c) = Some d \<and>
              committed c' = d \<and> pending c' = d)"
  using assms
  by (auto simp: upsert_bridge_transfer_def execute_def commit_def Let_def
           split: if_splits option.splits prod.splits sum.splits)

text \<open>
  C1. For every raw record with an \<^verbatim>\<open>id\<close> field, every server and every connection
  state: after the upsert has run twice with the record, the committed tables (and the
  open transaction's tables) are what they were after it ran once. Where the first run
  succeeds, so does the second, with the same result, and the table holds, under the
  id the record maps to the \<^verbatim>\<open>id\<close> column, one row whose mapped columns have the
  record's values. (\<open>cols\<close> and \<open>vals\<close> are the mapped columns and values of the record.)
\<close>

theorem upsert_idempotent:
  assumes "has_key ''id'' t"
    and "map_columns KEY_TO_COL (normalize_flat p (flatten t [] ''_'')) = (cols, vals)"
    and "upsert_bridge_transfer rej p c t = (r1, c1)"
    and "upsert_bridge_transfer rej p c1 t = (r2, c2)"
  shows "committed c2 = committed c1 \<and> pending c2 = pending c1 \<and>
         (\<forall>n. r1 = Inr n \<longrightarrow>
            r2 = Inr n \<and>
            (\<exists>idv row. map_of (zip cols vals) ''id'' = Some idv \<and>
               bridge_transfers (committed c2) idv = Some row \<and>
               (\<forall>col. col \<in> set cols \<and> col \<noteq> ''id'' \<longrightarrow> row col = map_of (zip cols vals) col)))"
proof -
  let ?q = "UpsertSql cols (length cols) (filter (\<lambda>c. c \<noteq> ''id'') cols)"
  from upsert_cases[OF assms(1,2,3)] show ?thesis
  proof (elim disjE exE conjE)
    fix e
    assume 1: "r1 = Inl e" "committed c1 = committed c" "pending c1 = pending c" "aborted c1"
    from assms(1,2,4) 1(4) have "committed c2 = committed c1 \<and> pending c2 = pending c1"
      by (auto simp: upsert_bridge_transfer_def execute_def Let_def split: if_splits prod.splits)
    with 1 show ?thesis by simp
  next
    fix d
    assume 1: "r1 = Inr (1, length cols)" "\<not> aborted c1" "\<not> rej ?q vals"
      "run_sql ?q vals (pending c) = Some d" "committed c1 = d" "pending c1 = d"
    from run_sql_upsert_idem[OF 1(4)] have 2: "run_sql ?q vals d = Some d" .
    from assms(1,2,4) 1(2,3,5,6) 2
    have 3: "r2 = Inr (1, length cols) \<and> committed c2 = d \<and> pending c2 = d"
      by (auto simp: upsert_bridge_transfer_def execute_def commit_def Let_def
               split: if_splits prod.splits)
    from run_sql_upsert_row[OF 2] obtain idv row where
      4: "row_of cols vals ''id'' = Some idv" "bridge_transfers d idv = Some row"
         "\<forall>c v. c \<in> set (filter (\<lambda>c. c \<noteq> ''id'') cols) \<and> row_of cols vals c = Some v
            \<longrightarrow> row c = Some v"
      by blast
    have len: "length cols = length vals"
      using map_columns_loop_acc[of KEY_TO_COL "normalize_flat p (flatten t [] ''_'')" "[]" "[]" cols vals]
        assms(2) by (simp add: map_columns_def) (metis length_map)
    have 5: "row col = map_of (zip cols vals) col" if "col \<in> set cols" "col \<noteq> ''id''" for col
    proof -
      from that(1) len obtain v where v: "map_of (zip cols vals) col = Some v"
        using map_of_zip_is_Some[of cols vals col] by auto
      with 4(3) that show ?thesis by (simp add: row_of_def)
    qed
    from 1 3 4 5 show ?thesis by (auto simp: row_of_def)
  qed
qed

theorem upsert_idempotent_witness:
  "has_key ''id'' [(''id'', JStr ''t1''), (''state'', JStr ''pending''),
                   (''receipt'', JDict [(''gas_fe'', JStr ''0.1'')])] \<and>
   fst (upsert_bridge_transfer accept_all parse_nothing fresh_conn
          [(''id'', JStr ''t1''), (''state'', JStr ''pending''),
           (''receipt'', JDict [(''gas_fe'', JStr ''0.1'')])]) = Inr (1, 3) \<and>
   committed (snd (upsert_bridge_transfer accept_all parse_nothing
       (snd (upsert_bridge_transfer accept_all parse_nothing fresh_conn
          [(''id'', JStr ''t1''), (''state'', JStr ''pending''),
           (''receipt'', JDict [(''gas_fe'', JStr ''0.1'')])]))
       [(''id'', JStr ''t1''), (''state'', JStr ''pending''),
        (''receipt'', JDict [(''gas_fe'', JStr ''0.1'')])])) =
   committed (snd (upsert_bridge_transfer accept_all parse_nothing fresh_conn
       [(''id'', JStr ''t1''), (''state'', JStr ''pending''),
        (''receipt'', JDict [(''gas_fe'', JStr ''0.1'')])]))"
proof -
  let ?t = "[(''id'', JStr ''t1''), (''state'', JStr ''pending''),
             (''receipt'', JDict [(''gas_fe'', JStr ''0.1'')])]"
  let ?u = "upsert_bridge_transfer accept_all parse_nothing"
  have k: "has_key ''id'' ?t"
    by (simp add: has_key_def keys_def)
  have f: "normalize_flat parse_nothing (flatten ?t [] ''_'') =
      [(''id'', JStr ''t1''), (''state'', JStr ''pending''),
       (''receipt_gas_fe'', JStr ''0.1''), (''receipt_gas_fee'', JStr ''0.1'')]"
    by (simp add: flatten_def compose_key_def dict_update_def normalize_flat_def fix_gas_fee_def
        normalize_time_def has_key_def keys_def)
  have m: "map_columns KEY_TO_COL (normalize_flat parse_nothing (flatten ?t [] ''_'')) =
      ([''id'', ''state'', ''receipt_gas_fee''], [JStr ''t1'', JStr ''pending'', JStr ''0.1''])"
    unfolding f by (simp add: map_columns_def KEY_TO_COL_def)
  have r: "fst (?u fresh_conn ?t) = Inr (1, 3)"
    using k by (simp add: upsert_bridge_transfer_def m execute_def run_sql_def row_of_def
        accept_all_def fresh_conn_def empty_db_def commit_def Let_def)
  from upsert_idempotent[OF k m, of accept_all fresh_conn "fst (?u fresh_conn ?t)"
      "snd (?u fresh_conn ?t)" "fst (?u (snd (?u fresh_conn ?t)) ?t)"
      "snd (?u (snd (?u fresh_conn ?t)) ?t)"]
  have "committed (snd (?u (snd (?u fresh_conn ?t)) ?t)) = committed (snd (?u fresh_conn ?t))"
    by simp
  with k r show ?thesis by simp
qed

section \<open>The API functions and transport errors\<close>

lemma create_virtual_accounts_propagates:
  "create_virtual_accounts (Inl e) = Inl e \<and> get_virtual_accounts (Inl e) = Inl e"
  by (simp add: create_virtual_accounts_def get_virtual_accounts_def)

text \<open>
  C9, as the code has it. A transport error raised by the HTTP library becomes a
  returned failure value in three functions: \<^verbatim>\<open>create_transfer\<close> returns the dict with
  \<^verbatim>\<open>status_code\<close> 0 and \<^verbatim>\<open>success\<close> False, \<^verbatim>\<open>update_static_transfer_fee\<close> and
  \<^verbatim>\<open>update_developer_fee\<close> return \<^verbatim>\<open>(None, str(e), False)\<close>. \<^verbatim>\<open>fetch_client_data\<close> and
  \<^verbatim>\<open>fetch_transfer_data\<close> raise it to their caller, as their docstrings say.
\<close>

theorem transport_errors_by_function:
  "create_transfer (Inl (RequestException m)) = Inr (connection_failure m) \<and>
   update_static_transfer_fee (Inl e) = Inr (None, message e, False) \<and>
   update_developer_fee (Inl e) = Inr (None, message e, False) \<and>
   fetch_client_data (Inl e) = Inl e \<and>
   fetch_transfer_data (Inl e) = Inl e"
  by (simp add: create_transfer_def create_transfer_handler_def update_static_transfer_fee_def
      update_developer_fee_def fetch_client_data_def fetch_transfer_data_def)

theorem transport_errors_by_function_witness:
  "create_transfer (Inl (RequestException ''timed out'')) =
     Inr [(''status_code'', JNum 0), (''success'', JBool False),
          (''data'', JDict [(''error'',
             JStr (''Error de conexi'' @ [CHR 0xC3, CHR 0xB3] @ ''n: timed out''))]),
          (''headers'', JDict [])] \<and>
   update_developer_fee (Inl (OtherException ''boom'')) = Inr (None, ''boom'', False)"
  using transport_errors_by_function[of "''timed out''" "OtherException ''boom''"]
  by (simp add: connection_failure_def)

text \<open>
  The claim C9 as stated ("for every API-calling operation ... no raw exception
  propagates") fails: a timeout in \<^verbatim>\<open>fetch_client_data\<close> leaves the function as the
  exception.
\<close>

theorem fetch_client_data_propagates:
  "fetch_client_data (Inl (RequestException ''timed out'')) = Inl (RequestException ''timed out'')"
  by (simp add: fetch_client_data_def)

section \<open>The flatteners and list values\<close>

subsection \<open>dict.update and dict(items)\<close>

lemma dict_update_Nil: "dict_update a [] = a"
  by (simp add: dict_update_def)

lemma dict_update_Cons: "dict_update a (kv # b) = dict_update (AList.update (fst kv) (snd kv) a) b"
  by (simp add: dict_update_def)




lemma update_fresh: "k \<notin> fst ` set a \<Longrightarrow> AList.update k v a = a @ [(k, v)]"
  by (induction a) auto

lemma dict_update_fresh:
  "distinct (map fst b) \<Longrightarrow> fst ` set a \<inter> fst ` set b = {} \<Longrightarrow> dict_update a b = a @ b"
proof (induction b arbitrary: a)
  case Nil
  show ?case by (simp add: dict_update_Nil)
next
  case (Cons kv b)
  from Cons.prems have 1: "fst kv \<notin> fst ` set a" by auto
  have 2: "fst ` set (a @ [kv]) \<inter> fst ` set b = {}"
    using Cons.prems by auto
  from Cons.prems have 3: "distinct (map fst b)" by simp
  show ?case
    using Cons.IH[OF 3 2] by (simp add: dict_update_Cons update_fresh[OF 1])
qed

lemma dict_of_items_distinct: "distinct (map fst b) \<Longrightarrow> dict_of_items b = b"
  using dict_update_fresh[of b "[]"] by (simp add: dict_of_items_def)

subsection \<open>Induction over a record and its nested records\<close>

lemma dict_induct [case_names Nil Dict Leaf]:
  assumes "P []"
    and "\<And>k d rest. P d \<Longrightarrow> P rest \<Longrightarrow> P ((k, JDict d) # rest)"
    and "\<And>k v rest. (\<forall>d. v \<noteq> JDict d) \<Longrightarrow> P rest \<Longrightarrow> P ((k, v) # rest)"
  shows "P d"
  using assms
  by (rule_tac flatten_loop.induct[of "\<lambda>d p s out. P d" d "[]" "[]" "[]"]) simp_all

lemma flatten_loop_leaf:
  "(\<forall>d. v \<noteq> JDict d) \<Longrightarrow>
   flatten_loop ((k, v) # rest) parent sep out =
     flatten_loop rest parent sep (AList.update (compose_key parent sep k) v out)"
  by (cases v) simp_all

subsection \<open>The transfer flattener\<close>





lemma distinct_dict_update: "distinct (map fst a) \<Longrightarrow> distinct (map fst (dict_update a b))"
  by (induction b arbitrary: a) (simp_all add: dict_update_Nil dict_update_Cons distinct_update)

lemma distinct_flatten_loop:
  "distinct (map fst out) \<Longrightarrow> distinct (map fst (flatten_loop d parent sep out))"
  by (induction d arbitrary: parent out rule: dict_induct)
     (simp_all add: flatten_loop_leaf distinct_update distinct_dict_update)

lemma distinct_flatten: "distinct (map fst (flatten d parent sep))"
  by (simp add: flatten_def distinct_flatten_loop)



subsection \<open>The CSV flatteners\<close>

lemma flatten_json_items_acc:
  "flatten_json_items d parent_key sep items = items @ flatten_json_items d parent_key sep []"
proof (induction d arbitrary: items)
  case Nil
  show ?case by simp
next
  case (Cons kv d)
  show ?case
    by (simp add: Cons.IH[of "items @ _"] Cons.IH[of "flatten_json _ _ _"] Cons.IH[of "[_]"])
qed


lemma flatten_json_elems_acc:
  "flatten_json_elems xs i parent_key sep items = items @ flatten_json_elems xs i parent_key sep []"
proof (induction xs arbitrary: i items)
  case Nil
  show ?case by simp
next
  case (Cons x xs)
  show ?case
    by (simp add: Cons.IH[of _ "items @ _"] Cons.IH[of _ "flatten_json _ _ _"] Cons.IH[of _ "[_]"])
qed





subsection \<open>Decimal digits\<close>








subsection \<open>The flattener of the dashboard's CSV download\<close>

lemma flatten_dict_loop_acc:
  "flatten_dict_loop str_of d parent_key sep items =
     items @ flatten_dict_loop str_of d parent_key sep []"
proof (induction d arbitrary: parent_key items rule: dict_induct)
  case Nil
  show ?case by simp
next
  case (Dict k d rest)
  show ?case
    by (simp add: Dict.IH(2)[of _ "items @ _"] Dict.IH(2)[of _ "dict_of_items _"])
next
  case (Leaf k v rest)
  from Leaf.hyps show ?case
    by (cases v) (simp_all add: Leaf.IH[of _ "items @ _"] Leaf.IH[of _ "[_]"])
qed



subsection \<open>What each flattener does with a list\<close>




section \<open>Flattening and re-nesting\<close>



subsection \<open>Splitting a joined path\<close>









subsection \<open>The leaves of a nestable record\<close>





subsection \<open>Flattening a nestable record lists its leaves\<close>





subsection \<open>Re-nesting the leaves\<close>












end
